theory Spec2Isabelle
  imports Complex_Main "HOL-Library.Sublist"
begin

section \<open>The differential HTTP comparator of bbot (bbot/core/helpers/diff.py)\<close>

text \<open>
  The class \<open>HttpCompare\<close> calibrates a baseline from two requests to one URL
  (\<open>__init__\<close>) and then classifies subject responses against it (\<open>compare\<close>).
  The embedding follows the Python text: the object is a record that is passed
  in and returned, the transport and the random token source are oracles read
  through an explicit world state, exceptions are values of a sum type.
\<close>

subsection \<open>Data\<close>

text \<open>
  A header collection and a Python dict of extra headers or cookies are
  association lists (name, value) in insertion order, one entry per name.
\<close>

type_synonym headers = "(string \<times> string) list"

text \<open>
  The response object of the transport. \<open>truth_value\<close> is what Python's
  \<open>not subject_response\<close> tests on a response object: the response type belongs
  to the transport, so its truth value is a field here rather than a formula.
\<close>

record response =
  status_code :: int
  headers :: headers
  resp_text :: string
  truth_value :: bool

text \<open>
  The arguments of one call of \<open>parent_helper.request\<close>: the URL and the keyword
  arguments. A keyword the call does not pass is \<open>None\<close>.
\<close>

record request =
  url :: string
  req_headers :: "headers option"
  req_cookies :: "headers option"
  allow_redirects :: bool

text \<open>
  The world outside: how many random strings were drawn and which requests
  were sent, in order. The helper's two oracles answer the k-th call.
\<close>

record world =
  rand_calls :: nat
  sent :: "request list"

record parent_helper =
  request_fn :: "nat \<Rightarrow> request \<Rightarrow> response option"
  rand_string_fn :: "nat \<Rightarrow> nat \<Rightarrow> string"

text \<open>
  A parsed body: the dict that \<open>json.loads(xmltojson.parse(text))\<close> gives, or the
  list of lines of the fallback \<open>text.split("\n")\<close>.
\<close>

datatype 'j body = Tree 'j | Lines "string list"

text \<open>
  The two imported libraries, as parameters: the markup parser, \<open>None\<close> where it
  raises \<open>ExpatError\<close>, and DeepDiff's \<open>deep_distance\<close> of two bodies.
\<close>

record 'j libs =
  xmltojson_parse :: "string \<Rightarrow> 'j option"
  deep_distance :: "'j body \<Rightarrow> 'j body \<Rightarrow> real"

datatype error = HttpCompareError string | AttributeError

record 'j http_compare =
  parent_helper :: parent_helper
  baseline_url :: string
  baseline :: response
  baseline_json :: "'j body"
  baseline_ignore_headers :: "string list"
  baseline_body_distance :: real

subsection \<open>The oracles\<close>

definition rand_string :: "parent_helper \<Rightarrow> nat \<Rightarrow> world \<Rightarrow> string \<times> world" where
  "rand_string helper n w =
     (rand_string_fn helper (rand_calls w) n, w\<lparr>rand_calls := Suc (rand_calls w)\<rparr>)"

definition request :: "parent_helper \<Rightarrow> request \<Rightarrow> world \<Rightarrow> response option \<times> world" where
  "request helper r w = (request_fn helper (length (sent w)) r, w\<lparr>sent := sent w @ [r]\<rparr>)"

definition gen_cache_buster :: "parent_helper \<Rightarrow> world \<Rightarrow> string \<times> world" where
  "gen_cache_buster helper w =
     (let (s, w') = rand_string helper 6 w in (''?'' @ s @ ''=1'', w'))"

subsection \<open>Strings\<close>

text \<open>Python's \<open>s.split(d)\<close> for a one-character separator.\<close>

fun split_on :: "char \<Rightarrow> string \<Rightarrow> string list" where
  "split_on d [] = [[]]"
| "split_on d (c # cs) =
     (if c = d then [] # split_on d cs
      else (case split_on d cs of [] \<Rightarrow> [[c]] | p # ps \<Rightarrow> (c # p) # ps))"

definition newline :: char where
  "newline = CHR 0x0A"

text \<open>Lower case of the ASCII letters, which is what header names are made of.\<close>

definition lower_char :: "char \<Rightarrow> char" where
  "lower_char c =
     (case map_of (zip ''ABCDEFGHIJKLMNOPQRSTUVWXYZ'' ''abcdefghijklmnopqrstuvwxyz'') c of
        None \<Rightarrow> c
      | Some l \<Rightarrow> l)"

definition lower :: "string \<Rightarrow> string" where
  "lower s = map lower_char s"

subsection \<open>Header collections\<close>

text \<open>
  Modelled from the spec: the header collection type of the transport is not
  part of this repository; the spec (4.3) gives \<open>del headers[name]\<close> on it
  "case-insensitive name matching". \<open>None\<close> is Python's \<open>KeyError\<close>.
\<close>

definition del_item :: "string \<Rightarrow> headers \<Rightarrow> headers option" where
  "del_item name h =
     (if lower name \<in> set (map (lower \<circ> fst) h)
      then Some (filter (\<lambda>(n, v). lower n \<noteq> lower name) h)
      else None)"

text \<open>\<open>try: del h[name] except KeyError: pass\<close>\<close>

definition try_del :: "string \<Rightarrow> headers \<Rightarrow> headers" where
  "try_del name h = (case del_item name h of None \<Rightarrow> h | Some h' \<Rightarrow> h')"

text \<open>The first loop of \<open>compare_headers\<close>, which deletes from both arguments in place.\<close>

fun del_ignored :: "string list \<Rightarrow> headers \<Rightarrow> headers \<Rightarrow> headers \<times> headers" where
  "del_ignored [] headers_1 headers_2 = (headers_1, headers_2)"
| "del_ignored (ignored_header # rest) headers_1 headers_2 =
     del_ignored rest (try_del ignored_header headers_1) (try_del ignored_header headers_2)"

text \<open>
  Modelled from the spec: DeepDiff is not part of this repository. On two
  header collections the spec (4.3) has it report "every header name that is
  present in exactly one of the two collections, or present in both with
  different values". The result is indexed by the report kind; a kind with
  no item is absent (\<open>None\<close>, Python's \<open>KeyError\<close>). An item is the tree node
  of one header, given here by the header's name.
\<close>

definition DeepDiff :: "headers \<Rightarrow> headers \<Rightarrow> string \<Rightarrow> string list option" where
  "DeepDiff t1 t2 kind =
     (let items =
        (if kind = ''dictionary_item_added''
           then [k \<leftarrow> map fst t2. k \<notin> set (map fst t1)]
         else if kind = ''values_changed''
           then [k \<leftarrow> map fst t1. k \<in> set (map fst t2) \<and> map_of t1 k \<noteq> map_of t2 k]
         else if kind = ''dictionary_item_removed''
           then [k \<leftarrow> map fst t1. k \<notin> set (map fst t2)]
         else [])
      in if items = [] then None else Some items)"

definition apostrophe :: char where
  "apostrophe = CHR 0x27"

text \<open>
  \<open>str(x)\<close> of a tree node: the text starts with the path of the node, the
  header name between apostrophes, as in \<open><root['server'] ...>\<close>. What DeepDiff
  prints after the path is left out: it lies behind the second piece of the
  split below.
\<close>

definition node_str :: "string \<Rightarrow> string" where
  "node_str k = ''<root['' @ [apostrophe] @ k @ [apostrophe] @ '']>''"

text \<open>
  \<open>header_value = str(x).split("'")[1]\<close>. A text with fewer than two pieces,
  where Python raises \<open>IndexError\<close>, does not arise from \<^const>\<open>node_str\<close>
  (lemma \<open>header_value_node_str\<close>); the last case stands for it.
\<close>

definition header_value :: "string \<Rightarrow> string" where
  "header_value s = (case split_on apostrophe s of p # q # rest \<Rightarrow> q | _ \<Rightarrow> [])"

text \<open>
  One \<open>try: for x in list(ddiff[kind]): header_value = str(x).split("'")[1];
  matched_headers.append(header_value) except KeyError: pass\<close>.
\<close>

definition append_kind :: "(string \<Rightarrow> string list option) \<Rightarrow> string \<Rightarrow> string list \<Rightarrow> string list" where
  "append_kind ddiff kind matched_headers =
     (case ddiff kind of
        None \<Rightarrow> matched_headers
      | Some xs \<Rightarrow> matched_headers @ map (\<lambda>x. header_value (node_str x)) xs)"

text \<open>
  \<open>compare_headers\<close> reads \<open>self.baseline_ignore_headers\<close> (the first argument
  here) and returns the differing names; the two collections it was given
  are changed by the deletions, so they are returned as well.
\<close>

definition compare_headers ::
  "string list \<Rightarrow> headers \<Rightarrow> headers \<Rightarrow> string list \<times> headers \<times> headers" where
  "compare_headers ignore_headers headers_1 headers_2 =
     (let matched_headers = [];
          (headers_1, headers_2) = del_ignored ignore_headers headers_1 headers_2;
          ddiff = DeepDiff headers_1 headers_2;
          matched_headers = append_kind ddiff ''dictionary_item_added'' matched_headers;
          matched_headers = append_kind ddiff ''values_changed'' matched_headers;
          matched_headers = append_kind ddiff ''dictionary_item_removed'' matched_headers
      in (matched_headers, headers_1, headers_2))"

subsection \<open>Bodies\<close>

definition compare_body :: "'j libs \<Rightarrow> 'j body \<Rightarrow> 'j body \<Rightarrow> real" where
  "compare_body libs content_1 content_2 =
     (if content_1 = content_2 then 0.0 else deep_distance libs content_1 content_2)"

text \<open>\<open>try: json.loads(xmltojson.parse(text)) except ExpatError: text.split("\n")\<close>\<close>

definition parse_body :: "'j libs \<Rightarrow> string \<Rightarrow> 'j body" where
  "parse_body libs txt =
     (case xmltojson_parse libs txt of
        Some j \<Rightarrow> Tree j
      | None \<Rightarrow> Lines (split_on newline txt))"

subsection \<open>Calibration: \<open>HttpCompare.__init__\<close>\<close>

definition seeded_ignore_headers :: "string list" where
  "seeded_ignore_headers = [''date'', ''last-modified'', ''content-length'']"

text \<open>
  The two requests, the status check, one \<open>try\<close> around both parses, the
  header diff under the seeded names and the body distance. \<open>self.baseline\<close>
  is the object \<open>baseline_1\<close> itself, so the deletions \<open>compare_headers\<close> makes
  in \<open>baseline_1.headers\<close> are deletions in the stored baseline. A response
  that is \<open>None\<close> has no \<open>status_code\<close>: \<open>AttributeError\<close>. \<open>sleep(2)\<close> has no
  effect on the values.
\<close>

definition init ::
  "'j libs \<Rightarrow> string \<Rightarrow> parent_helper \<Rightarrow> world \<Rightarrow> (error + 'j http_compare) \<times> world" where
  "init libs url0 helper w0 =
     (let (cb1, w1) = gen_cache_buster helper w0;
          (baseline_1, w2) = request helper
             \<lparr>url = url0 @ cb1, req_headers = None, req_cookies = None, allow_redirects = False\<rparr> w1;
          (cb2, w3) = gen_cache_buster helper w2;
          (baseline_2, w4) = request helper
             \<lparr>url = url0 @ cb2, req_headers = None, req_cookies = None, allow_redirects = False\<rparr> w3
      in case baseline_1 of
           None \<Rightarrow> (Inl AttributeError, w4)
         | Some b1 \<Rightarrow>
            (case baseline_2 of
               None \<Rightarrow> (Inl AttributeError, w4)
             | Some b2 \<Rightarrow>
                if status_code b1 \<noteq> status_code b2
                then (Inl (HttpCompareError ''Can't get baseline from source URL''), w4)
                else
                  let fallback = (Lines (split_on newline (resp_text b1)),
                                  Lines (split_on newline (resp_text b2)));
                      (baseline_1_json, baseline_2_json) =
                        (case xmltojson_parse libs (resp_text b1) of
                           None \<Rightarrow> fallback
                         | Some j1 \<Rightarrow>
                            (case xmltojson_parse libs (resp_text b2) of
                               None \<Rightarrow> fallback
                             | Some j2 \<Rightarrow> (Tree j1, Tree j2)));
                      ignore_headers = seeded_ignore_headers;
                      (dynamic_headers, headers_1, headers_2) =
                        compare_headers ignore_headers (headers b1) (headers b2)
                  in (Inr \<lparr>parent_helper = helper,
                           baseline_url = url0,
                           baseline = b1\<lparr>headers := headers_1\<rparr>,
                           baseline_json = baseline_1_json,
                           baseline_ignore_headers = ignore_headers @ dynamic_headers,
                           baseline_body_distance =
                             compare_body libs baseline_1_json baseline_2_json\<rparr>, w4)))"

subsection \<open>Comparison: \<open>HttpCompare.compare\<close>\<close>

text \<open>
  The block \<open>if add_headers: ... elif add_cookies: ...\<close> of \<open>compare\<close>, from the
  value of \<open>reflection\<close> before it to the value after it. A dict is true when
  it is neither \<open>None\<close> nor empty; \<open>list(d.values())[0]\<close> is the value of its
  first entry; \<open>v in text\<close> on strings is \<^const>\<open>sublist\<close>.
\<close>

definition reflection_check :: "bool \<Rightarrow> headers option \<Rightarrow> headers option \<Rightarrow> string \<Rightarrow> bool" where
  "reflection_check reflection add_headers add_cookies txt =
     (case add_headers of
        Some (h # hs) \<Rightarrow>
          (if length (h # hs) = 1 then (if sublist (snd h) txt then True else reflection)
           else reflection)
      | _ \<Rightarrow>
          (case add_cookies of
             Some (c # cs) \<Rightarrow>
               (if length (c # cs) = 1 then (if sublist (snd c) txt then True else reflection)
                else reflection)
           | _ \<Rightarrow> reflection))"

text \<open>
  The result is the Python triple (match, reason, reflection), the reason a
  string or \<open>None\<close>. The object is returned too: \<open>compare_headers\<close> is called on
  \<open>self.baseline.headers\<close> itself.
\<close>

type_synonym result = "bool \<times> string option \<times> bool"

definition compare ::
  "'j libs \<Rightarrow> 'j http_compare \<Rightarrow> string \<Rightarrow> headers option \<Rightarrow> headers option \<Rightarrow> world
     \<Rightarrow> result \<times> 'j http_compare \<times> world" where
  "compare libs self subject add_headers add_cookies w0 =
     (let reflection = False;
          (cb, w1) = gen_cache_buster (parent_helper self) w0;
          (subject_response, w2) = request (parent_helper self)
             \<lparr>url = subject @ cb, req_headers = add_headers, req_cookies = None,
              allow_redirects = False\<rparr> w1
      in case subject_response of
           None \<Rightarrow> ((True, Some ''403'', reflection), self, w2)
         | Some r \<Rightarrow>
            if \<not> truth_value r then ((True, Some ''403'', reflection), self, w2)
            else
              let reflection = reflection_check reflection add_headers add_cookies (resp_text r);
                  subject_json = parse_body libs (resp_text r)
              in if status_code (baseline self) \<noteq> status_code r
                 then ((False, Some ''code'', reflection), self, w2)
                 else
                   let (different_headers, headers_1, headers_2) =
                         compare_headers (baseline_ignore_headers self)
                           (headers (baseline self)) (headers r);
                       self = self\<lparr>baseline := (baseline self)\<lparr>headers := headers_1\<rparr>\<rparr>
                   in if different_headers \<noteq> []
                      then ((False, Some ''header'', reflection), self, w2)
                      else
                        let subject_body_distance =
                              compare_body libs (baseline_json self) subject_json
                        in if baseline_body_distance self \<noteq> subject_body_distance
                           then ((False, Some ''body'', reflection), self, w2)
                           else ((True, None, False), self, w2))"

subsection \<open>Concrete inputs\<close>

text \<open>
  A transport that answers the k-th request with the k-th entry of a script
  (no entry: no response), and a token source with two tokens.
\<close>

definition scripted :: "response option list \<Rightarrow> parent_helper" where
  "scripted answers =
     \<lparr>request_fn = (\<lambda>k r. if k < length answers then answers ! k else None),
      rand_string_fn = (\<lambda>k n. if k = 0 then ''x1y2z3'' else ''Qw8RtZ'')\<rparr>"

text \<open>
  Stand-ins for the two libraries: a parser that accepts a text starting
  with \<open><\<close> and returns it as its own tree, and a distance that is 0.12 between
  any two different bodies.
\<close>

definition ex_libs :: "string libs" where
  "ex_libs =
     \<lparr>xmltojson_parse = (\<lambda>s. case s of [] \<Rightarrow> None | c # cs \<Rightarrow> if c = CHR ''<'' then Some s else None),
      deep_distance = (\<lambda>a b. 0.12)\<rparr>"

definition ok_response :: "int \<Rightarrow> headers \<Rightarrow> string \<Rightarrow> response" where
  "ok_response code h txt = \<lparr>status_code = code, headers = h, resp_text = txt, truth_value = True\<rparr>"

definition w_start :: world where
  "w_start = \<lparr>rand_calls = 0, sent = []\<rparr>"

text \<open>A calibrated object with noise floor 0.12 whose transport follows a script.\<close>

definition ex_self :: "response option list \<Rightarrow> string http_compare" where
  "ex_self answers =
     \<lparr>parent_helper = scripted answers,
      baseline_url = ''http://example.com/'',
      baseline = ok_response 200 [(''server'', ''nginx'')] ''<html>1</html>'',
      baseline_json = Tree ''<html>1</html>'',
      baseline_ignore_headers = seeded_ignore_headers,
      baseline_body_distance = 0.12\<rparr>"

text \<open>
  A calibration in which the header \<open>x-request-id\<close> differs between the two
  samples, followed by one subject response; and the object and the world
  that this calibration ends in.
\<close>

definition ex_script :: "response option list" where
  "ex_script =
     [Some (ok_response 200 [(''x-request-id'', ''1''), (''server'', ''nginx'')] ''<html>1</html>''),
      Some (ok_response 200 [(''x-request-id'', ''2''), (''server'', ''nginx'')] ''<html>1</html>''),
      Some (ok_response 200 [(''x-request-id'', ''3''), (''server'', ''nginx'')] ''<html>1</html>'')]"

definition ex_calibrated :: "string http_compare" where
  "ex_calibrated =
     \<lparr>parent_helper = scripted ex_script,
      baseline_url = ''http://example.com/'',
      baseline = ok_response 200 [(''x-request-id'', ''1''), (''server'', ''nginx'')] ''<html>1</html>'',
      baseline_json = Tree ''<html>1</html>'',
      baseline_ignore_headers = [''date'', ''last-modified'', ''content-length'', ''x-request-id''],
      baseline_body_distance = 0.0\<rparr>"

definition w_calibrated :: world where
  "w_calibrated =
     \<lparr>rand_calls = 2,
      sent = [\<lparr>url = ''http://example.com/?x1y2z3=1'', req_headers = None, req_cookies = None,
               allow_redirects = False\<rparr>,
              \<lparr>url = ''http://example.com/?Qw8RtZ=1'', req_headers = None, req_cookies = None,
               allow_redirects = False\<rparr>]\<rparr>"

text \<open>
  The same calibration with a varying header whose name has an apostrophe
  in it, and the object and the world it ends in.
\<close>

definition ex_script_apostrophe :: "response option list" where
  "ex_script_apostrophe =
     [Some (ok_response 200 [(''it's'', ''1''), (''server'', ''nginx'')] ''<html>1</html>''),
      Some (ok_response 200 [(''it's'', ''2''), (''server'', ''nginx'')] ''<html>1</html>''),
      Some (ok_response 200 [(''it's'', ''3''), (''server'', ''nginx'')] ''<html>1</html>'')]"

definition ex_calibrated_apostrophe :: "string http_compare" where
  "ex_calibrated_apostrophe =
     \<lparr>parent_helper = scripted ex_script_apostrophe,
      baseline_url = ''http://example.com/'',
      baseline = ok_response 200 [(''it's'', ''1''), (''server'', ''nginx'')] ''<html>1</html>'',
      baseline_json = Tree ''<html>1</html>'',
      baseline_ignore_headers = [''date'', ''last-modified'', ''content-length'', ''it''],
      baseline_body_distance = 0.0\<rparr>"

section \<open>Properties\<close>

subsection \<open>Header deletion and the header diff\<close>

lemma try_del_filter: "try_del name h = filter (\<lambda>(n, v). lower n \<noteq> lower name) h"
proof (cases "lower name \<in> set (map (lower \<circ> fst) h)")
  case True
  then show ?thesis by (simp add: try_del_def del_item_def)
next
  case False
  then have "\<forall>x \<in> set h. (\<lambda>(n, v). lower n \<noteq> lower name) x"
    by (auto simp: image_iff)
  then have "filter (\<lambda>(n, v). lower n \<noteq> lower name) h = h"
    by (simp add: filter_id_conv)
  with False show ?thesis by (simp add: try_del_def del_item_def)
qed

lemma filter_filter_names:
  "filter (\<lambda>(n, v). lower n \<notin> set (map lower ig)) (filter (\<lambda>(n, v). lower n \<noteq> lower i) h)
      = filter (\<lambda>(n, v). lower n \<notin> set (map lower (i # ig))) h"
  by (induction h) auto

lemma del_ignored_filter:
  "del_ignored ig h1 h2 =
     (filter (\<lambda>(n, v). lower n \<notin> set (map lower ig)) h1,
      filter (\<lambda>(n, v). lower n \<notin> set (map lower ig)) h2)"
proof (induction ig arbitrary: h1 h2)
  case Nil
  then show ?case by simp
next
  case (Cons i ig)
  show ?case
    unfolding del_ignored.simps Cons.IH try_del_filter filter_filter_names ..
qed


lemma map_of_filter_name:
  "map_of (filter (\<lambda>(n, v). P n) h) k = (if P k then map_of h k else None)"
  by (induction h) auto

lemma split_on_first:
  "\<exists>ps. split_on d xs = takeWhile (\<lambda>c. c \<noteq> d) xs # ps"
  by (induction xs) auto

lemma header_value_node_str:
  "header_value (node_str k) = takeWhile (\<lambda>c. c \<noteq> apostrophe) k"
proof -
  obtain ps where ps: "split_on apostrophe (k @ apostrophe # '']>'')
      = takeWhile (\<lambda>c. c \<noteq> apostrophe) (k @ apostrophe # '']>'') # ps"
    using split_on_first by blast
  have t: "takeWhile (\<lambda>c. c \<noteq> apostrophe) (k @ apostrophe # '']>'')
      = takeWhile (\<lambda>c. c \<noteq> apostrophe) k"
    by (rule takeWhile_tail) simp
  have pre: "split_on apostrophe (''<root['' @ apostrophe # rest)
      = ''<root['' # split_on apostrophe rest" for rest
    by (cases "split_on apostrophe rest") (simp_all add: apostrophe_def)
  have n: "node_str k = ''<root['' @ apostrophe # (k @ apostrophe # '']>'')"
    by (simp add: node_str_def)
  show ?thesis
    unfolding header_value_def n pre ps t by simp
qed

lemma append_kind_added:
  "append_kind (DeepDiff t1 t2) ''dictionary_item_added'' m
     = m @ map (takeWhile (\<lambda>c. c \<noteq> apostrophe)) [k \<leftarrow> map fst t2. k \<notin> set (map fst t1)]"
  by (simp add: append_kind_def DeepDiff_def Let_def header_value_node_str)

lemma append_kind_changed:
  "append_kind (DeepDiff t1 t2) ''values_changed'' m
     = m @ map (takeWhile (\<lambda>c. c \<noteq> apostrophe))
             [k \<leftarrow> map fst t1. k \<in> set (map fst t2) \<and> map_of t1 k \<noteq> map_of t2 k]"
  by (simp add: append_kind_def DeepDiff_def Let_def header_value_node_str)

lemma append_kind_removed:
  "append_kind (DeepDiff t1 t2) ''dictionary_item_removed'' m
     = m @ map (takeWhile (\<lambda>c. c \<noteq> apostrophe)) [k \<leftarrow> map fst t1. k \<notin> set (map fst t2)]"
  by (simp add: append_kind_def DeepDiff_def Let_def header_value_node_str)

lemma compare_headers_unfold:
  "compare_headers ig h1 h2 =
     (let t1 = filter (\<lambda>(n, v). lower n \<notin> set (map lower ig)) h1;
          t2 = filter (\<lambda>(n, v). lower n \<notin> set (map lower ig)) h2
      in (map (takeWhile (\<lambda>c. c \<noteq> apostrophe))
            ([k \<leftarrow> map fst t2. k \<notin> set (map fst t1)]
             @ [k \<leftarrow> map fst t1. k \<in> set (map fst t2) \<and> map_of t1 k \<noteq> map_of t2 k]
             @ [k \<leftarrow> map fst t1. k \<notin> set (map fst t2)]), t1, t2))"
  unfolding compare_headers_def del_ignored_filter Let_def prod.case
    append_kind_added append_kind_changed append_kind_removed
  by simp

lemma diff_names:
  "set ([k \<leftarrow> map fst t2. k \<notin> set (map fst t1)]
          @ [k \<leftarrow> map fst t1. k \<in> set (map fst t2) \<and> map_of t1 k \<noteq> map_of t2 k]
          @ [k \<leftarrow> map fst t1. k \<notin> set (map fst t2)]) = {k. map_of t1 k \<noteq> map_of t2 k}"
proof -
  have dom: "\<And>t k. (k \<in> set (map fst t)) = (map_of t k \<noteq> None)" for t :: headers
    by (simp add: map_of_eq_None_iff)
  show ?thesis
    unfolding set_append set_filter dom by auto
qed

lemma compare_headers_names:
  "set (fst (compare_headers ig h1 h2))
     = takeWhile (\<lambda>c. c \<noteq> apostrophe)
         ` {k. lower k \<notin> set (map lower ig) \<and> map_of h1 k \<noteq> map_of h2 k}"
proof -
  define t1 where "t1 = filter (\<lambda>(n, v). lower n \<notin> set (map lower ig)) h1"
  define t2 where "t2 = filter (\<lambda>(n, v). lower n \<notin> set (map lower ig)) h2"
  define names where "names = [k \<leftarrow> map fst t2. k \<notin> set (map fst t1)]
          @ [k \<leftarrow> map fst t1. k \<in> set (map fst t2) \<and> map_of t1 k \<noteq> map_of t2 k]
          @ [k \<leftarrow> map fst t1. k \<notin> set (map fst t2)]"
  have f: "fst (compare_headers ig h1 h2) = map (takeWhile (\<lambda>c. c \<noteq> apostrophe)) names"
    unfolding names_def t1_def t2_def compare_headers_unfold Let_def fst_conv ..
  have n: "set names = {k. map_of t1 k \<noteq> map_of t2 k}"
    unfolding names_def by (rule diff_names)
  have "{k. map_of t1 k \<noteq> map_of t2 k}
          = {k. lower k \<notin> set (map lower ig) \<and> map_of h1 k \<noteq> map_of h2 k}"
    unfolding t1_def t2_def map_of_filter_name by auto
  with n show ?thesis
    unfolding f by (simp only: set_map)
qed

lemma compare_headers_same:
  assumes "filter (\<lambda>(n, v). lower n \<notin> set (map lower ig)) h1
         = filter (\<lambda>(n, v). lower n \<notin> set (map lower ig)) h2"
  shows "fst (compare_headers ig h1 h2) = []"
proof -
  define t2 where "t2 = filter (\<lambda>(n, v). lower n \<notin> set (map lower ig)) h2"
  define names where "names = [k \<leftarrow> map fst t2. k \<notin> set (map fst t2)]
          @ [k \<leftarrow> map fst t2. k \<in> set (map fst t2) \<and> map_of t2 k \<noteq> map_of t2 k]
          @ [k \<leftarrow> map fst t2. k \<notin> set (map fst t2)]"
  have f: "fst (compare_headers ig h1 h2) = map (takeWhile (\<lambda>c. c \<noteq> apostrophe)) names"
    unfolding names_def t2_def compare_headers_unfold Let_def fst_conv assms ..
  have "set names = {k. map_of t2 k \<noteq> map_of t2 k}"
    unfolding names_def by (rule diff_names)
  then have "names = []" by simp
  then show ?thesis unfolding f by simp
qed

lemma compare_no_response:
  assumes "gen_cache_buster (parent_helper self) w0 = (cb, w1)"
    and "request (parent_helper self)
           \<lparr>url = subject @ cb, req_headers = add_headers, req_cookies = None,
            allow_redirects = False\<rparr> w1 = (resp, w2)"
    and "resp = None \<or> (\<exists>r. resp = Some r \<and> \<not> truth_value r)"
  shows "compare libs self subject add_headers add_cookies w0
           = ((True, Some ''403'', False), self, w2)"
  using assms by (auto simp: compare_def)

lemma compare_usable:
  assumes "gen_cache_buster (parent_helper self) w0 = (cb, w1)"
    and "request (parent_helper self)
           \<lparr>url = subject @ cb, req_headers = add_headers, req_cookies = None,
            allow_redirects = False\<rparr> w1 = (Some r, w2)"
    and "truth_value r"
  shows "compare libs self subject add_headers add_cookies w0 =
     (let reflection = reflection_check False add_headers add_cookies (resp_text r);
          ch = compare_headers (baseline_ignore_headers self) (headers (baseline self)) (headers r);
          self' = self\<lparr>baseline := (baseline self)\<lparr>headers := fst (snd ch)\<rparr>\<rparr>
      in if status_code (baseline self) \<noteq> status_code r
           then ((False, Some ''code'', reflection), self, w2)
         else if fst ch \<noteq> []
           then ((False, Some ''header'', reflection), self', w2)
         else if baseline_body_distance self
                   \<noteq> compare_body libs (baseline_json self) (parse_body libs (resp_text r))
           then ((False, Some ''body'', reflection), self', w2)
         else ((True, None, False), self', w2))"
  using assms by (simp add: compare_def Let_def split: prod.splits)

lemmas oracle_defs =
  gen_cache_buster_def rand_string_def request_def scripted_def w_start_def

lemmas fixture_defs = ex_self_def ex_libs_def ok_response_def seeded_ignore_headers_def

subsection \<open>The classification of a subject response\<close>

text \<open>
  Claim C1. When the transport gives a usable response (an object that is
  true), \<open>compare\<close> tests the status code first, then the headers, then the body
  distance, and stops at the first mismatch: the result carries the reason
  \<open>"code"\<close> whenever the status codes differ, whatever the headers and the body
  are; \<open>"header"\<close> only when the status codes are equal; \<open>"body"\<close> only when the
  status codes are equal and the header diff is empty; and no reason exactly
  when all three agree. When the status codes differ the header comparison is
  not run, so the object is returned as it was.
\<close>

theorem compare_reason_precedence:
  assumes "gen_cache_buster (parent_helper self) w0 = (cb, w1)"
    and "request (parent_helper self)
           \<lparr>url = subject @ cb, req_headers = add_headers, req_cookies = None,
            allow_redirects = False\<rparr> w1 = (Some r, w2)"
    and "truth_value r"
  shows "fst (compare libs self subject add_headers add_cookies w0) =
     (let reflection = reflection_check False add_headers add_cookies (resp_text r)
      in if status_code (baseline self) \<noteq> status_code r
           then (False, Some ''code'', reflection)
         else if fst (compare_headers (baseline_ignore_headers self)
                        (headers (baseline self)) (headers r)) \<noteq> []
           then (False, Some ''header'', reflection)
         else if baseline_body_distance self
                   \<noteq> compare_body libs (baseline_json self) (parse_body libs (resp_text r))
           then (False, Some ''body'', reflection)
         else (True, None, False))
     \<and> (status_code (baseline self) \<noteq> status_code r
          \<longrightarrow> fst (snd (compare libs self subject add_headers add_cookies w0)) = self)"
  unfolding compare_usable [OF assms] by (simp add: Let_def)

text \<open>
  At a baseline with status 200 and a subject response with status 302 whose
  headers and body differ from the baseline's as well, the reason is \<open>"code"\<close>.
\<close>

theorem compare_reason_precedence_witness:
  "truth_value (ok_response 302 [(''server'', ''apache'')] ''<html>2</html>'')
   \<and> fst (compare ex_libs
            (ex_self [Some (ok_response 302 [(''server'', ''apache'')] ''<html>2</html>'')])
            ''http://example.com/a'' None None w_start)
       = (False, Some ''code'', False)
   \<and> fst (snd (compare ex_libs
            (ex_self [Some (ok_response 302 [(''server'', ''apache'')] ''<html>2</html>'')])
            ''http://example.com/a'' None None w_start))
       = ex_self [Some (ok_response 302 [(''server'', ''apache'')] ''<html>2</html>'')]"
proof -
  let ?r = "ok_response 302 [(''server'', ''apache'')] ''<html>2</html>''"
  let ?self = "ex_self [Some ?r]"
  have g: "gen_cache_buster (parent_helper ?self) w_start
             = (''?x1y2z3=1'', \<lparr>rand_calls = 1, sent = []\<rparr>)"
    by (simp add: oracle_defs ex_self_def)
  have q: "request (parent_helper ?self)
             \<lparr>url = ''http://example.com/a'' @ ''?x1y2z3=1'', req_headers = None,
              req_cookies = None, allow_redirects = False\<rparr> \<lparr>rand_calls = 1, sent = []\<rparr>
           = (Some ?r, \<lparr>rand_calls = 1, sent = [\<lparr>url = ''http://example.com/a'' @ ''?x1y2z3=1'',
                 req_headers = None, req_cookies = None, allow_redirects = False\<rparr>]\<rparr>)"
    by (simp add: oracle_defs ex_self_def)
  have t: "truth_value ?r" by (simp add: ok_response_def)
  have c: "status_code (baseline ?self) \<noteq> status_code ?r"
    by (simp add: ex_self_def ok_response_def)
  from compare_reason_precedence [OF g q t, of ex_libs None] c t show ?thesis
    by (simp add: Let_def reflection_check_def)
qed

text \<open>
  Claim C2. When the response is usable, the status codes are equal and the
  header diff is empty, the outcome is decided by equality of the subject's
  body distance with the calibrated noise floor alone: a different distance
  gives (false, "body", reflection), the same distance, zero or not, gives
  (true, none, false).
\<close>

theorem compare_body_exact_equality:
  assumes "gen_cache_buster (parent_helper self) w0 = (cb, w1)"
    and "request (parent_helper self)
           \<lparr>url = subject @ cb, req_headers = add_headers, req_cookies = None,
            allow_redirects = False\<rparr> w1 = (Some r, w2)"
    and "truth_value r"
    and "status_code (baseline self) = status_code r"
    and "fst (compare_headers (baseline_ignore_headers self)
                (headers (baseline self)) (headers r)) = []"
  shows "fst (compare libs self subject add_headers add_cookies w0) =
     (if compare_body libs (baseline_json self) (parse_body libs (resp_text r))
           \<noteq> baseline_body_distance self
      then (False, Some ''body'', reflection_check False add_headers add_cookies (resp_text r))
      else (True, None, False))"
  unfolding compare_usable [OF assms(1-3)] using assms(4,5) by (simp add: Let_def)

text \<open>
  With noise floor 0.12 and a subject body at distance 0.12 from the baseline
  body the result is a match.
\<close>

theorem compare_body_exact_equality_witness:
  "compare_body ex_libs (baseline_json (ex_self [])) (parse_body ex_libs ''<html>2</html>'') = 0.12
   \<and> baseline_body_distance (ex_self []) = 0.12
   \<and> fst (compare ex_libs
            (ex_self [Some (ok_response 200 [(''Date'', ''Tue''), (''server'', ''nginx'')] ''<html>2</html>'')])
            ''http://example.com/a'' None None w_start)
       = (True, None, False)"
proof -
  let ?r = "ok_response 200 [(''Date'', ''Tue''), (''server'', ''nginx'')] ''<html>2</html>''"
  let ?self = "ex_self [Some ?r]"
  have g: "gen_cache_buster (parent_helper ?self) w_start
             = (''?x1y2z3=1'', \<lparr>rand_calls = 1, sent = []\<rparr>)"
    by (simp add: oracle_defs ex_self_def)
  have q: "request (parent_helper ?self)
             \<lparr>url = ''http://example.com/a'' @ ''?x1y2z3=1'', req_headers = None,
              req_cookies = None, allow_redirects = False\<rparr> \<lparr>rand_calls = 1, sent = []\<rparr>
           = (Some ?r, \<lparr>rand_calls = 1, sent = [\<lparr>url = ''http://example.com/a'' @ ''?x1y2z3=1'',
                 req_headers = None, req_cookies = None, allow_redirects = False\<rparr>]\<rparr>)"
    by (simp add: oracle_defs ex_self_def)
  have t: "truth_value ?r" by (simp add: ok_response_def)
  have c: "status_code (baseline ?self) = status_code ?r"
    by (simp add: ex_self_def ok_response_def)
  have h: "fst (compare_headers (baseline_ignore_headers ?self)
                  (headers (baseline ?self)) (headers ?r)) = []"
    by (rule compare_headers_same)
       (simp add: fixture_defs lower_def lower_char_def)
  have d: "compare_body ex_libs (baseline_json ?self) (parse_body ex_libs (resp_text ?r)) = 0.12"
    by (simp add: compare_body_def parse_body_def fixture_defs)
  have d': "compare_body ex_libs (baseline_json (ex_self [])) (parse_body ex_libs ''<html>2</html>'') = 0.12"
    by (simp add: compare_body_def parse_body_def fixture_defs)
  have f: "baseline_body_distance ?self = 0.12" "baseline_body_distance (ex_self []) = 0.12"
    by (simp_all add: ex_self_def)
  from compare_body_exact_equality [OF g q t c h, of ex_libs None] d d' f show ?thesis
    by simp
qed

subsection \<open>No usable response\<close>

text \<open>
  Claim C4. When the transport gives no usable response (\<open>None\<close>, or an object
  that is false), \<open>compare\<close> returns (true, "403", false), raises nothing, and
  runs none of the reflection, header and body checks: the result does not
  depend on the extra headers, the extra cookies or the baseline, and the
  object is returned unchanged.
\<close>

theorem compare_unusable_response:
  assumes "gen_cache_buster (parent_helper self) w0 = (cb, w1)"
    and "request (parent_helper self)
           \<lparr>url = subject @ cb, req_headers = add_headers, req_cookies = None,
            allow_redirects = False\<rparr> w1 = (resp, w2)"
    and "resp = None \<or> (\<exists>r. resp = Some r \<and> \<not> truth_value r)"
  shows "compare libs self subject add_headers add_cookies w0
           = ((True, Some ''403'', False), self, w2)"
  using assms by (rule compare_no_response)

theorem compare_unusable_response_witness:
  "compare ex_libs (ex_self []) ''http://example.com/a''
      (Some [(''X-Injected'', ''marker-123'')]) None w_start
    = ((True, Some ''403'', False), ex_self [],
       \<lparr>rand_calls = 1,
        sent = [\<lparr>url = ''http://example.com/a?x1y2z3=1'',
                 req_headers = Some [(''X-Injected'', ''marker-123'')],
                 req_cookies = None, allow_redirects = False\<rparr>]\<rparr>)"
proof -
  have g: "gen_cache_buster (parent_helper (ex_self [])) w_start
             = (''?x1y2z3=1'', \<lparr>rand_calls = 1, sent = []\<rparr>)"
    by (simp add: oracle_defs ex_self_def)
  have q: "request (parent_helper (ex_self []))
             \<lparr>url = ''http://example.com/a'' @ ''?x1y2z3=1'',
              req_headers = Some [(''X-Injected'', ''marker-123'')],
              req_cookies = None, allow_redirects = False\<rparr> \<lparr>rand_calls = 1, sent = []\<rparr>
           = (None, \<lparr>rand_calls = 1, sent = [\<lparr>url = ''http://example.com/a?x1y2z3=1'',
                 req_headers = Some [(''X-Injected'', ''marker-123'')],
                 req_cookies = None, allow_redirects = False\<rparr>]\<rparr>)"
    by (simp add: oracle_defs ex_self_def)
  from compare_unusable_response [OF g q, of ex_libs None] show ?thesis by simp
qed

subsection \<open>Calibration\<close>

lemma init_unstable:
  assumes "gen_cache_buster helper w0 = (cb1, w1)"
    and "request helper
           \<lparr>url = url0 @ cb1, req_headers = None, req_cookies = None,
            allow_redirects = False\<rparr> w1 = (Some b1, w2)"
    and "gen_cache_buster helper w2 = (cb2, w3)"
    and "request helper
           \<lparr>url = url0 @ cb2, req_headers = None, req_cookies = None,
            allow_redirects = False\<rparr> w3 = (Some b2, w4)"
    and "status_code b1 \<noteq> status_code b2"
  shows "init libs url0 helper w0
           = (Inl (HttpCompareError ''Can't get baseline from source URL''), w4)"
  using assms by (simp add: init_def)

lemma init_stable:
  assumes "gen_cache_buster helper w0 = (cb1, w1)"
    and "request helper
           \<lparr>url = url0 @ cb1, req_headers = None, req_cookies = None,
            allow_redirects = False\<rparr> w1 = (Some b1, w2)"
    and "gen_cache_buster helper w2 = (cb2, w3)"
    and "request helper
           \<lparr>url = url0 @ cb2, req_headers = None, req_cookies = None,
            allow_redirects = False\<rparr> w3 = (Some b2, w4)"
    and "status_code b1 = status_code b2"
  shows "init libs url0 helper w0 =
     (let fallback = (Lines (split_on newline (resp_text b1)),
                      Lines (split_on newline (resp_text b2)));
          jsons = (case xmltojson_parse libs (resp_text b1) of
                     None \<Rightarrow> fallback
                   | Some j1 \<Rightarrow>
                      (case xmltojson_parse libs (resp_text b2) of
                         None \<Rightarrow> fallback
                       | Some j2 \<Rightarrow> (Tree j1, Tree j2)));
          ch = compare_headers seeded_ignore_headers (headers b1) (headers b2)
      in (Inr \<lparr>parent_helper = helper,
               baseline_url = url0,
               baseline = b1\<lparr>headers := fst (snd ch)\<rparr>,
               baseline_json = fst jsons,
               baseline_ignore_headers = seeded_ignore_headers @ fst ch,
               baseline_body_distance = compare_body libs (fst jsons) (snd jsons)\<rparr>, w4))"
  using assms by (simp add: init_def Let_def split: prod.splits)

text \<open>
  Claim C3. When the two calibration requests are answered with different
  status codes, \<open>__init__\<close> raises \<open>HttpCompareError\<close>: construction returns the
  error and no object, so there is no baseline, partial or whole, that a later
  \<open>compare\<close> could be given.
\<close>

theorem init_unstable_baseline:
  assumes "gen_cache_buster helper w0 = (cb1, w1)"
    and "request helper
           \<lparr>url = url0 @ cb1, req_headers = None, req_cookies = None,
            allow_redirects = False\<rparr> w1 = (Some b1, w2)"
    and "gen_cache_buster helper w2 = (cb2, w3)"
    and "request helper
           \<lparr>url = url0 @ cb2, req_headers = None, req_cookies = None,
            allow_redirects = False\<rparr> w3 = (Some b2, w4)"
    and "status_code b1 \<noteq> status_code b2"
  shows "fst (init libs url0 helper w0)
           = Inl (HttpCompareError ''Can't get baseline from source URL'')
         \<and> (\<forall>self. fst (init libs url0 helper w0) \<noteq> Inr self)"
  unfolding init_unstable [OF assms] by simp

text \<open>Calibration responses with status codes 200 and 500.\<close>

theorem init_unstable_baseline_witness:
  "status_code (ok_response 200 [] ''<html>1</html>'') \<noteq> status_code (ok_response 500 [] ''error'')
   \<and> fst (init ex_libs ''http://example.com/''
            (scripted [Some (ok_response 200 [] ''<html>1</html>''), Some (ok_response 500 [] ''error'')])
            w_start)
       = Inl (HttpCompareError ''Can't get baseline from source URL'')"
proof -
  let ?b1 = "ok_response 200 [] ''<html>1</html>''"
  let ?b2 = "ok_response 500 [] ''error''"
  let ?helper = "scripted [Some ?b1, Some ?b2]"
  let ?q1 = "\<lparr>url = ''http://example.com/'' @ ''?x1y2z3=1'', req_headers = None,
              req_cookies = None, allow_redirects = False\<rparr>"
  let ?q2 = "\<lparr>url = ''http://example.com/'' @ ''?Qw8RtZ=1'', req_headers = None,
              req_cookies = None, allow_redirects = False\<rparr>"
  have g1: "gen_cache_buster ?helper w_start = (''?x1y2z3=1'', \<lparr>rand_calls = 1, sent = []\<rparr>)"
    by (simp add: oracle_defs)
  have q1: "request ?helper ?q1 \<lparr>rand_calls = 1, sent = []\<rparr>
              = (Some ?b1, \<lparr>rand_calls = 1, sent = [?q1]\<rparr>)"
    by (simp add: oracle_defs)
  have g2: "gen_cache_buster ?helper \<lparr>rand_calls = 1, sent = [?q1]\<rparr>
              = (''?Qw8RtZ=1'', \<lparr>rand_calls = 2, sent = [?q1]\<rparr>)"
    by (simp add: oracle_defs)
  have q2: "request ?helper ?q2 \<lparr>rand_calls = 2, sent = [?q1]\<rparr>
              = (Some ?b2, \<lparr>rand_calls = 2, sent = [?q1, ?q2]\<rparr>)"
    by (simp add: oracle_defs)
  have c: "status_code ?b1 \<noteq> status_code ?b2" by (simp add: ok_response_def)
  from init_unstable_baseline [OF g1 q1 g2 q2 c, of ex_libs] c show ?thesis by simp
qed

text \<open>The run of the two calibration requests against a scripted transport.\<close>

lemma scripted_calibration:
  fixes ba bb :: response and rest :: "response option list" and site :: string
  defines "helper \<equiv> scripted (Some ba # Some bb # rest)"
    and "q1 \<equiv> \<lparr>url = site @ ''?x1y2z3=1'', req_headers = None, req_cookies = None,
                 allow_redirects = False\<rparr>"
    and "q2 \<equiv> \<lparr>url = site @ ''?Qw8RtZ=1'', req_headers = None, req_cookies = None,
                 allow_redirects = False\<rparr>"
  shows "gen_cache_buster helper w_start = (''?x1y2z3=1'', \<lparr>rand_calls = 1, sent = []\<rparr>)
    \<and> request helper q1 \<lparr>rand_calls = 1, sent = []\<rparr>
           = (Some ba, \<lparr>rand_calls = 1, sent = [q1]\<rparr>)
    \<and> gen_cache_buster helper \<lparr>rand_calls = 1, sent = [q1]\<rparr>
           = (''?Qw8RtZ=1'', \<lparr>rand_calls = 2, sent = [q1]\<rparr>)
    \<and> request helper q2 \<lparr>rand_calls = 2, sent = [q1]\<rparr>
           = (Some bb, \<lparr>rand_calls = 2, sent = [q1, q2]\<rparr>)"
  by (simp add: oracle_defs helper_def)

lemma seeded_filter_date:
  "filter (\<lambda>(n, v). lower n \<notin> set (map lower seeded_ignore_headers)) h
     = filter (\<lambda>(n, v). lower n \<notin> set (map lower [''last-modified'', ''content-length'']))
         (try_del ''date'' h)"
  unfolding seeded_ignore_headers_def try_del_filter filter_filter_names ..

text \<open>
  What a successful calibration stores as the ignore list: the three seeded
  names followed by what \<open>compare_headers\<close> returns under the seeds alone. As a
  set these are the seeded names and, for every name that is not seeded and
  is bound differently in the two header collections, the part of the name
  before its first apostrophe; so the differing names themselves when none
  of them has an apostrophe. Responses with the same body and the same
  headers apart from \<open>Date\<close> give noise floor 0.0 and the seeded names alone.
\<close>

lemma init_ignore_list:
  assumes "gen_cache_buster helper w0 = (cb1, w1)"
    and "request helper
           \<lparr>url = url0 @ cb1, req_headers = None, req_cookies = None,
            allow_redirects = False\<rparr> w1 = (Some b1, w2)"
    and "gen_cache_buster helper w2 = (cb2, w3)"
    and "request helper
           \<lparr>url = url0 @ cb2, req_headers = None, req_cookies = None,
            allow_redirects = False\<rparr> w3 = (Some b2, w4)"
    and "status_code b1 = status_code b2"
  shows "\<exists>self. init libs url0 helper w0 = (Inr self, w4)
     \<and> baseline_ignore_headers self
         = [''date'', ''last-modified'', ''content-length'']
           @ fst (compare_headers [''date'', ''last-modified'', ''content-length'']
                    (headers b1) (headers b2))
     \<and> set (baseline_ignore_headers self)
         = {''date'', ''last-modified'', ''content-length''}
           \<union> takeWhile (\<lambda>c. c \<noteq> apostrophe)
               ` {k. lower k \<notin> {''date'', ''last-modified'', ''content-length''}
                     \<and> map_of (headers b1) k \<noteq> map_of (headers b2) k}
     \<and> (resp_text b1 = resp_text b2
          \<and> try_del ''date'' (headers b1) = try_del ''date'' (headers b2)
        \<longrightarrow> baseline_body_distance self = 0.0
            \<and> baseline_ignore_headers self = [''date'', ''last-modified'', ''content-length''])"
proof -
  let ?ch = "compare_headers seeded_ignore_headers (headers b1) (headers b2)"
  have low: "set (map lower seeded_ignore_headers) = {''date'', ''last-modified'', ''content-length''}"
    by (simp add: seeded_ignore_headers_def lower_def lower_char_def)
  have names: "set (fst ?ch) = takeWhile (\<lambda>c. c \<noteq> apostrophe)
                 ` {k. lower k \<notin> {''date'', ''last-modified'', ''content-length''}
                  \<and> map_of (headers b1) k \<noteq> map_of (headers b2) k}"
    unfolding compare_headers_names low ..
  have same: "fst ?ch = []"
    if "try_del ''date'' (headers b1) = try_del ''date'' (headers b2)"
    by (rule compare_headers_same) (unfold seeded_filter_date that, rule refl)
  have eq: "resp_text b1 = resp_text b2 \<Longrightarrow>
      compare_body libs
        (fst (case xmltojson_parse libs (resp_text b1) of
                None \<Rightarrow> (Lines (split_on newline (resp_text b1)), Lines (split_on newline (resp_text b2)))
              | Some j1 \<Rightarrow>
                 (case xmltojson_parse libs (resp_text b2) of
                    None \<Rightarrow> (Lines (split_on newline (resp_text b1)), Lines (split_on newline (resp_text b2)))
                  | Some j2 \<Rightarrow> (Tree j1, Tree j2))))
        (snd (case xmltojson_parse libs (resp_text b1) of
                None \<Rightarrow> (Lines (split_on newline (resp_text b1)), Lines (split_on newline (resp_text b2)))
              | Some j1 \<Rightarrow>
                 (case xmltojson_parse libs (resp_text b2) of
                    None \<Rightarrow> (Lines (split_on newline (resp_text b1)), Lines (split_on newline (resp_text b2)))
                  | Some j2 \<Rightarrow> (Tree j1, Tree j2)))) = 0"
    by (simp add: compare_body_def split: option.splits)
  show ?thesis
    unfolding init_stable [OF assms] Let_def
    using names same eq
    by (simp add: seeded_ignore_headers_def)
qed

lemma ex_calibrated_apostrophe_run:
  "init ex_libs ''http://example.com/'' (scripted ex_script_apostrophe) w_start
     = (Inr ex_calibrated_apostrophe, w_calibrated)"
proof -
  note run = scripted_calibration [of
      "ok_response 200 [(''it's'', ''1''), (''server'', ''nginx'')] ''<html>1</html>''"
      "ok_response 200 [(''it's'', ''2''), (''server'', ''nginx'')] ''<html>1</html>''"
      "[Some (ok_response 200 [(''it's'', ''3''), (''server'', ''nginx'')] ''<html>1</html>'')]"
      "''http://example.com/''"]
  note g1 = run [THEN conjunct1]
    and q1 = run [THEN conjunct2, THEN conjunct1]
    and g2 = run [THEN conjunct2, THEN conjunct2, THEN conjunct1]
    and q2 = run [THEN conjunct2, THEN conjunct2, THEN conjunct2]
  have c: "status_code (ok_response 200 [(''it's'', ''1''), (''server'', ''nginx'')] ''<html>1</html>'')
         = status_code (ok_response 200 [(''it's'', ''2''), (''server'', ''nginx'')] ''<html>1</html>'')"
    by (simp add: ok_response_def)
  show ?thesis
    unfolding ex_script_apostrophe_def init_stable [OF g1 q1 g2 q2 c]
    by (simp add: Let_def compare_headers_unfold compare_body_def fixture_defs
          ex_calibrated_apostrophe_def w_calibrated_def ex_script_apostrophe_def
          lower_def lower_char_def apostrophe_def)
qed

lemma ex_calibrated_apostrophe_compare:
  "fst (compare ex_libs ex_calibrated_apostrophe ''http://example.com/'' None None w_calibrated)
     = (False, Some ''header'', False)"
  by (simp add: compare_def Let_def compare_headers_unfold compare_body_def parse_body_def
        gen_cache_buster_def rand_string_def request_def scripted_def reflection_check_def
        fixture_defs ex_calibrated_apostrophe_def w_calibrated_def ex_script_apostrophe_def
        lower_def lower_char_def apostrophe_def)

text \<open>
  Claim C7 at a calibration whose two responses differ in the header \<open>it's\<close>
  only. The name that differs outside the seeds is \<open>it's\<close>, and no header is
  called \<open>it\<close>; the ignore list that \<open>__init__\<close> stores is the seeded names and
  \<open>it\<close>, the piece that \<open>str(x).split("'")[1]\<close> cuts out of \<open><root['it's'] ...>\<close>.
  The varying header is therefore not ignored: a later response that differs
  from the baseline in \<open>it's\<close> alone is a header mismatch.
\<close>

theorem init_ignore_headers_apostrophe:
  "init ex_libs ''http://example.com/'' (scripted ex_script_apostrophe) w_start
     = (Inr ex_calibrated_apostrophe, w_calibrated)
   \<and> baseline_ignore_headers ex_calibrated_apostrophe
       = [''date'', ''last-modified'', ''content-length'', ''it'']
   \<and> ''it's'' \<notin> set (baseline_ignore_headers ex_calibrated_apostrophe)
   \<and> fst (compare ex_libs ex_calibrated_apostrophe ''http://example.com/'' None None w_calibrated)
       = (False, Some ''header'', False)"
  unfolding ex_calibrated_apostrophe_run ex_calibrated_apostrophe_compare
  by (simp add: ex_calibrated_apostrophe_def)

text \<open>
  Claim C10. Both calibration bodies are parsed under one \<open>try\<close>: when the
  parser fails on either of them, both are replaced by their lists of lines,
  also the one that parses on its own. The stored body is then the line list
  of the first response, and the noise floor is the distance of the two line
  lists.
\<close>

theorem init_shared_parse_fallback:
  assumes "gen_cache_buster helper w0 = (cb1, w1)"
    and "request helper
           \<lparr>url = url0 @ cb1, req_headers = None, req_cookies = None,
            allow_redirects = False\<rparr> w1 = (Some b1, w2)"
    and "gen_cache_buster helper w2 = (cb2, w3)"
    and "request helper
           \<lparr>url = url0 @ cb2, req_headers = None, req_cookies = None,
            allow_redirects = False\<rparr> w3 = (Some b2, w4)"
    and "status_code b1 = status_code b2"
    and "xmltojson_parse libs (resp_text b1) = None \<or> xmltojson_parse libs (resp_text b2) = None"
  shows "\<exists>self. init libs url0 helper w0 = (Inr self, w4)
     \<and> baseline_json self = Lines (split_on newline (resp_text b1))
     \<and> baseline_body_distance self
         = compare_body libs (Lines (split_on newline (resp_text b1)))
             (Lines (split_on newline (resp_text b2)))"
  unfolding init_stable [OF assms(1-5)]
  using assms(6) by (auto simp: Let_def split: option.splits)

text \<open>
  The first body parses on its own, the second does not: the stored body is
  the line list of the first.
\<close>

theorem init_shared_parse_fallback_witness:
  "xmltojson_parse ex_libs ''<a>1</a>'' = Some ''<a>1</a>''
   \<and> xmltojson_parse ex_libs ''oops'' = None
   \<and> (case fst (init ex_libs ''http://example.com/''
                  (scripted [Some (ok_response 200 [] ''<a>1</a>''), Some (ok_response 200 [] ''oops'')])
                  w_start) of
         Inl e \<Rightarrow> False
       | Inr self \<Rightarrow> baseline_json self = Lines [''<a>1</a>'']
            \<and> baseline_body_distance self = 0.12)"
proof -
  let ?b1 = "ok_response 200 [] ''<a>1</a>''"
  let ?b2 = "ok_response 200 [] ''oops''"
  have c: "status_code ?b1 = status_code ?b2" by (simp add: ok_response_def)
  have p1: "xmltojson_parse ex_libs ''<a>1</a>'' = Some ''<a>1</a>''"
    by (simp add: ex_libs_def)
  have p2: "xmltojson_parse ex_libs ''oops'' = None"
    by (simp add: ex_libs_def)
  have p: "xmltojson_parse ex_libs (resp_text ?b1) = None \<or> xmltojson_parse ex_libs (resp_text ?b2) = None"
    using p2 by (simp add: ok_response_def)
  have l1: "split_on newline (resp_text ?b1) = [''<a>1</a>'']"
    by (simp add: ok_response_def newline_def)
  have l2: "split_on newline (resp_text ?b2) = [''oops'']"
    by (simp add: ok_response_def newline_def)
  have d: "compare_body ex_libs (Lines [''<a>1</a>'']) (Lines [''oops'']) = 0.12"
    by (simp add: compare_body_def ex_libs_def)
  note run = scripted_calibration [of ?b1 ?b2 "[]" "''http://example.com/''"]
  note g1 = run [THEN conjunct1]
    and q1 = run [THEN conjunct2, THEN conjunct1]
    and g2 = run [THEN conjunct2, THEN conjunct2, THEN conjunct1]
    and q2 = run [THEN conjunct2, THEN conjunct2, THEN conjunct2]
  from init_shared_parse_fallback [OF g1 q1 g2 q2 c p]
  obtain self where
    "fst (init ex_libs ''http://example.com/'' (scripted [Some ?b1, Some ?b2]) w_start) = Inr self"
    "baseline_json self = Lines (split_on newline (resp_text ?b1))"
    "baseline_body_distance self
       = compare_body ex_libs (Lines (split_on newline (resp_text ?b1)))
           (Lines (split_on newline (resp_text ?b2)))"
    by fastforce
  with p1 p2 l1 l2 d show ?thesis by simp
qed

subsection \<open>The reason and the request\<close>

text \<open>
  Claim C9, as the code has it. The reason \<open>compare\<close> returns is one of none,
  \<open>"code"\<close>, \<open>"header"\<close>, \<open>"body"\<close> and the sentinel \<open>"403"\<close> of the branch without a
  usable response.
\<close>

theorem compare_reason_range:
  "fst (snd (fst (compare libs self subject add_headers add_cookies w0)))
     \<in> {None, Some ''code'', Some ''header'', Some ''body'', Some ''403''}"
  by (simp add: compare_def Let_def split: prod.splits option.splits)

text \<open>
  Claim C9 as stated fails where the transport gives no response: the reason
  is \<open>"403"\<close>, which is none of none, \<open>"code"\<close>, \<open>"header"\<close>, \<open>"body"\<close>.
\<close>

theorem compare_reason_403_counterexample:
  "fst (snd (fst (compare ex_libs (ex_self []) ''http://example.com/a'' None None w_start)))
     \<notin> {None, Some ''code'', Some ''header'', Some ''body''}"
  by (simp add: compare_def oracle_defs ex_self_def)

lemma compare_request_sent:
  "sent (snd (snd (compare libs self subject add_headers add_cookies w0)))
     = sent w0 @
       [\<lparr>url = subject @ ''?'' @ rand_string_fn (parent_helper self) (rand_calls w0) 6 @ ''=1'',
         req_headers = add_headers, req_cookies = None, allow_redirects = False\<rparr>]"
  by (simp add: compare_def gen_cache_buster_def rand_string_def request_def Let_def
           split: prod.splits option.splits)

text \<open>
  Claim C6 at a call that supplies a cookie: the one request \<open>compare\<close> sends
  has the fresh token in its URL and redirects disabled, and no cookies.
\<close>

theorem compare_drops_cookies:
  "sent (snd (snd (compare ex_libs
            (ex_self [Some (ok_response 200 [(''server'', ''nginx'')] ''<html>1</html>'')])
            ''http://example.com/a'' None (Some [(''session'', ''abc'')]) w_start)))
     = [\<lparr>url = ''http://example.com/a?x1y2z3=1'', req_headers = None, req_cookies = None,
         allow_redirects = False\<rparr>]"
  unfolding compare_request_sent by (simp add: ex_self_def scripted_def w_start_def)

subsection \<open>The reflection flag\<close>

lemma reflection_check_iff:
  "reflection_check False add_headers add_cookies txt \<longleftrightarrow>
     (\<exists>n v. add_headers = Some [(n, v)] \<and> sublist v txt)
     \<or> ((add_headers = None \<or> add_headers = Some [])
         \<and> (\<exists>n v. add_cookies = Some [(n, v)] \<and> sublist v txt))"
  by (auto simp: reflection_check_def split: option.splits list.splits)

lemma compare_reflection:
  assumes "gen_cache_buster (parent_helper self) w0 = (cb, w1)"
    and "request (parent_helper self)
           \<lparr>url = subject @ cb, req_headers = add_headers, req_cookies = None,
            allow_redirects = False\<rparr> w1 = (Some r, w2)"
    and "truth_value r"
  shows "snd (snd (fst (compare libs self subject add_headers add_cookies w0)))
           = (reflection_check False add_headers add_cookies (resp_text r)
              \<and> \<not> fst (fst (compare libs self subject add_headers add_cookies w0)))"
  unfolding compare_usable [OF assms] by (simp add: Let_def)

text \<open>
  Claim C5, as the code has it. On a usable response the reflection flag of
  the result is true only when exactly one extra header was supplied and its
  value occurs in the response body, or no extra header was supplied,
  exactly one extra cookie was, and its value occurs in the body. With more
  than one extra header the flag is false; with more than one extra cookie
  and no extra header the flag is false.
\<close>

theorem compare_reflection_single_value:
  assumes "gen_cache_buster (parent_helper self) w0 = (cb, w1)"
    and "request (parent_helper self)
           \<lparr>url = subject @ cb, req_headers = add_headers, req_cookies = None,
            allow_redirects = False\<rparr> w1 = (Some r, w2)"
    and "truth_value r"
  shows "(snd (snd (fst (compare libs self subject add_headers add_cookies w0)))
            \<longrightarrow> (\<exists>n v. add_headers = Some [(n, v)] \<and> sublist v (resp_text r))
                \<or> ((add_headers = None \<or> add_headers = Some [])
                    \<and> (\<exists>n v. add_cookies = Some [(n, v)] \<and> sublist v (resp_text r))))
       \<and> ((\<exists>hs. add_headers = Some hs \<and> 1 < length hs)
            \<longrightarrow> \<not> snd (snd (fst (compare libs self subject add_headers add_cookies w0))))
       \<and> ((add_headers = None \<or> add_headers = Some [])
            \<and> (\<exists>cs. add_cookies = Some cs \<and> 1 < length cs)
            \<longrightarrow> \<not> snd (snd (fst (compare libs self subject add_headers add_cookies w0))))"
  unfolding compare_reflection [OF assms] reflection_check_iff by auto

text \<open>
  One extra header whose value is in the body of a response with another
  status code: the flag is true. Two extra headers under the same condition:
  the flag is false.
\<close>

theorem compare_reflection_single_value_witness:
  "sublist ''marker-123'' ''<p>marker-123</p>''
   \<and> snd (snd (fst (compare ex_libs (ex_self [Some (ok_response 302 [] ''<p>marker-123</p>'')])
         ''http://example.com/a'' (Some [(''X-Injected'', ''marker-123'')]) None w_start)))
   \<and> \<not> snd (snd (fst (compare ex_libs (ex_self [Some (ok_response 302 [] ''<p>marker-123</p>'')])
         ''http://example.com/a''
         (Some [(''X-Injected'', ''marker-123''), (''X-Other'', ''marker-123'')]) None w_start)))"
proof -
  let ?r = "ok_response 302 [] ''<p>marker-123</p>''"
  let ?self = "ex_self [Some ?r]"
  let ?two = "Some [(''X-Injected'', ''marker-123''), (''X-Other'', ''marker-123'')]"
  have g: "gen_cache_buster (parent_helper ?self) w_start
             = (''?x1y2z3=1'', \<lparr>rand_calls = 1, sent = []\<rparr>)"
    by (simp add: oracle_defs ex_self_def)
  have q: "request (parent_helper ?self)
             \<lparr>url = ''http://example.com/a'' @ ''?x1y2z3=1'', req_headers = ?two,
              req_cookies = None, allow_redirects = False\<rparr> \<lparr>rand_calls = 1, sent = []\<rparr>
           = (Some ?r, \<lparr>rand_calls = 1, sent = [\<lparr>url = ''http://example.com/a'' @ ''?x1y2z3=1'',
                 req_headers = ?two, req_cookies = None, allow_redirects = False\<rparr>]\<rparr>)"
    by (simp add: oracle_defs ex_self_def)
  have t: "truth_value ?r" by (simp add: ok_response_def)
  have two: "\<exists>hs. ?two = Some hs \<and> 1 < length hs" by simp
  have m: "sublist ''marker-123'' ''<p>marker-123</p>''"
    by (simp add: sublist_Cons_right)
  have one: "snd (snd (fst (compare ex_libs ?self ''http://example.com/a''
               (Some [(''X-Injected'', ''marker-123'')]) None w_start)))"
    using m by (simp add: compare_def oracle_defs fixture_defs reflection_check_def)
  from compare_reflection_single_value [OF g q t, of ex_libs None] two m one
  show ?thesis by blast
qed

text \<open>
  Claim C5 as stated fails when extra cookies come with an extra header: with
  one extra header whose value is in the body and two extra cookies (whose
  values are in the body too), the flag is true.
\<close>

theorem compare_reflection_cookies_counterexample:
  "length [(''a'', ''c1''), (''b'', ''c2'')] = 2
   \<and> sublist ''c1'' ''<p>marker-123 c1 c2</p>''
   \<and> snd (snd (fst (compare ex_libs
         (ex_self [Some (ok_response 302 [] ''<p>marker-123 c1 c2</p>'')])
         ''http://example.com/a'' (Some [(''X-Injected'', ''marker-123'')])
         (Some [(''a'', ''c1''), (''b'', ''c2'')]) w_start)))"
proof -
  have m: "sublist ''marker-123'' ''<p>marker-123 c1 c2</p>''"
    by (simp add: sublist_Cons_right)
  have c: "sublist ''c1'' ''<p>marker-123 c1 c2</p>''"
    by (simp add: sublist_Cons_right)
  from m c show ?thesis
    by (simp add: compare_def oracle_defs fixture_defs reflection_check_def)
qed

subsection \<open>What \<open>compare\<close> changes in the object\<close>

lemma compare_frame:
  "fst (snd (compare libs self subject add_headers add_cookies w0)) = self
   \<or> fst (snd (compare libs self subject add_headers add_cookies w0))
       = self\<lparr>baseline := (baseline self)\<lparr>headers :=
            filter (\<lambda>(n, v). lower n \<notin> set (map lower (baseline_ignore_headers self)))
              (headers (baseline self))\<rparr>\<rparr>"
proof -
  obtain cb w1 where g: "gen_cache_buster (parent_helper self) w0 = (cb, w1)"
    by (cases "gen_cache_buster (parent_helper self) w0")
  obtain resp w2 where q: "request (parent_helper self)
           \<lparr>url = subject @ cb, req_headers = add_headers, req_cookies = None,
            allow_redirects = False\<rparr> w1 = (resp, w2)"
    by (cases "request (parent_helper self)
           \<lparr>url = subject @ cb, req_headers = add_headers, req_cookies = None,
            allow_redirects = False\<rparr> w1")
  show ?thesis
  proof (cases "resp = None \<or> (\<exists>r. resp = Some r \<and> \<not> truth_value r)")
    case True
    show ?thesis unfolding compare_no_response [OF g q True] by simp
  next
    case False
    then obtain r where r: "resp = Some r" "truth_value r" by auto
    have h: "fst (snd (compare_headers (baseline_ignore_headers self)
                (headers (baseline self)) (headers r)))
          = filter (\<lambda>(n, v). lower n \<notin> set (map lower (baseline_ignore_headers self)))
              (headers (baseline self))"
      unfolding compare_headers_unfold Let_def by simp
    show ?thesis
      unfolding compare_usable [OF g q [unfolded r(1)] r(2)] Let_def h
      by (simp only: fst_conv snd_conv split: if_splits) simp
  qed
qed

text \<open>
  Claim C8, as the code has it. \<open>compare_headers\<close> deletes the ignored names
  from the two collections it is given, not from copies. A \<open>compare\<close> call
  leaves the status code, the body text, the structural body, the ignore
  list and the noise floor of the object as they were; the stored header
  collection is either as it was or has lost exactly the entries whose names
  are ignored.
\<close>

theorem compare_changes_only_ignored_headers:
  assumes "compare libs self subject add_headers add_cookies w0 = (res, self', w')"
  shows "snd (compare_headers ig h1 h2)
           = (filter (\<lambda>(n, v). lower n \<notin> set (map lower ig)) h1,
              filter (\<lambda>(n, v). lower n \<notin> set (map lower ig)) h2)
       \<and> self' = self\<lparr>baseline := (baseline self)\<lparr>headers := headers (baseline self')\<rparr>\<rparr>
       \<and> (headers (baseline self') = headers (baseline self)
          \<or> headers (baseline self')
              = filter (\<lambda>(n, v). lower n \<notin> set (map lower (baseline_ignore_headers self)))
                  (headers (baseline self)))"
proof -
  have s: "self' = fst (snd (compare libs self subject add_headers add_cookies w0))"
    by (simp add: assms)
  from compare_frame [of libs self subject add_headers add_cookies w0] show ?thesis
    unfolding s [symmetric] by (auto simp: compare_headers_unfold Let_def)
qed

lemma ex_calibrated_run:
  "init ex_libs ''http://example.com/'' (scripted ex_script) w_start
     = (Inr ex_calibrated, w_calibrated)"
proof -
  note run = scripted_calibration [of
      "ok_response 200 [(''x-request-id'', ''1''), (''server'', ''nginx'')] ''<html>1</html>''"
      "ok_response 200 [(''x-request-id'', ''2''), (''server'', ''nginx'')] ''<html>1</html>''"
      "[Some (ok_response 200 [(''x-request-id'', ''3''), (''server'', ''nginx'')] ''<html>1</html>'')]"
      "''http://example.com/''"]
  note g1 = run [THEN conjunct1]
    and q1 = run [THEN conjunct2, THEN conjunct1]
    and g2 = run [THEN conjunct2, THEN conjunct2, THEN conjunct1]
    and q2 = run [THEN conjunct2, THEN conjunct2, THEN conjunct2]
  have c: "status_code (ok_response 200 [(''x-request-id'', ''1''), (''server'', ''nginx'')] ''<html>1</html>'')
         = status_code (ok_response 200 [(''x-request-id'', ''2''), (''server'', ''nginx'')] ''<html>1</html>'')"
    by (simp add: ok_response_def)
  show ?thesis
    unfolding ex_script_def [symmetric]
    unfolding ex_script_def init_stable [OF g1 q1 g2 q2 c]
    by (simp add: Let_def compare_headers_unfold compare_body_def fixture_defs
          ex_calibrated_def w_calibrated_def ex_script_def lower_def lower_char_def
          apostrophe_def)
qed

lemma ex_calibrated_compare:
  "fst (snd (compare ex_libs ex_calibrated ''http://example.com/'' None None w_calibrated))
     = ex_calibrated\<lparr>baseline := (baseline ex_calibrated)\<lparr>headers := [(''server'', ''nginx'')]\<rparr>\<rparr>"
  by (simp add: compare_def Let_def compare_headers_unfold compare_body_def parse_body_def
        gen_cache_buster_def rand_string_def request_def scripted_def
        fixture_defs ex_calibrated_def w_calibrated_def ex_script_def lower_def lower_char_def)

text \<open>
  Claim C8 as stated fails after a calibration that found a varying header:
  the object that \<open>__init__\<close> returns still holds \<open>x-request-id\<close> among its
  reference headers, and the first \<open>compare\<close> call removes it from them.
\<close>

theorem compare_mutates_baseline_headers_counterexample:
  "init ex_libs ''http://example.com/'' (scripted ex_script) w_start
     = (Inr ex_calibrated, w_calibrated)
   \<and> headers (baseline ex_calibrated) = [(''x-request-id'', ''1''), (''server'', ''nginx'')]
   \<and> headers (baseline (fst (snd
        (compare ex_libs ex_calibrated ''http://example.com/'' None None w_calibrated))))
       = [(''server'', ''nginx'')]"
  unfolding ex_calibrated_run ex_calibrated_compare
  by (simp add: ex_calibrated_def ok_response_def)

theorem compare_changes_only_ignored_headers_witness:
  "compare ex_libs ex_calibrated ''http://example.com/'' None None w_calibrated
     = (fst (compare ex_libs ex_calibrated ''http://example.com/'' None None w_calibrated),
        ex_calibrated\<lparr>baseline := (baseline ex_calibrated)\<lparr>headers := [(''server'', ''nginx'')]\<rparr>\<rparr>,
        snd (snd (compare ex_libs ex_calibrated ''http://example.com/'' None None w_calibrated)))
   \<and> [(''server'', ''nginx'')]
       = filter (\<lambda>(n, v). lower n \<notin> set (map lower (baseline_ignore_headers ex_calibrated)))
           (headers (baseline ex_calibrated))"
proof -
  let ?c = "compare ex_libs ex_calibrated ''http://example.com/'' None None w_calibrated"
  let ?s = "ex_calibrated\<lparr>baseline := (baseline ex_calibrated)\<lparr>headers := [(''server'', ''nginx'')]\<rparr>\<rparr>"
  have e: "?c = (fst ?c, ?s, snd (snd ?c))"
    unfolding ex_calibrated_compare [symmetric] by simp
  have n: "headers (baseline ex_calibrated) \<noteq> [(''server'', ''nginx'')]"
    by (simp add: ex_calibrated_def ok_response_def)
  from compare_changes_only_ignored_headers [OF e] n e show ?thesis
    by simp
qed

end
